theory Spec2Isabelle
  imports Complex_Main
begin

section \<open>Python values, exceptions and the host\<close>

text \<open>
  Byte strings are lists of 8-bit characters. A Python \<open>str\<close> is carried by its UTF-8
  encoding, so \<open>encode('utf-8')\<close> is the identity and \<open>decode('utf-8')\<close> is a validity
  check; string concatenation is list append on both sides.
\<close>

type_synonym bytes = string
type_synonym sock = nat

text \<open>
  The exception classes the two source files distinguish in their \<open>except\<close> clauses, and
  the ones their own statements raise. \<open>ConnectionError\<close> stands for the class with its
  subclasses (\<open>BrokenPipeError\<close>, \<open>ConnectionResetError\<close>, ...), \<open>SocketTimeout\<close> for
  \<open>socket.timeout\<close>, \<open>PlainException\<close> for a direct instance of \<open>Exception\<close>, and
  \<open>OtherError\<close> for every other subclass of \<open>Exception\<close>. Every class here is caught by
  \<open>except Exception\<close>. An exception carries its class and the text \<open>str(e)\<close>.
  The socket and JSON calls raise exceptions of these classes only.
\<close>

datatype exc_class =
    BlockingIOError | SocketTimeout | ConnectionError | JSONDecodeError
  | UnicodeDecodeError | AttributeError | IndexError | TypeError
  | PlainException | OtherError

datatype exn = Exn (exc_class: exc_class) (exc_str: string)

text \<open>
  The exceptions that are not instances of \<open>Exception\<close>: \<open>except Exception\<close> does not
  catch them. Handler code can raise them (\<open>execute_code\<close> runs \<open>exec\<close> on the text it is
  given, and \<open>sys.exit()\<close> raises \<open>SystemExit\<close>). What a handler raises is one or the other.
\<close>

datatype exit_class = SystemExit | KeyboardInterrupt | GeneratorExit | OtherBaseException

datatype exit_exn = ExitExn (exit_class: exit_class) (exit_str: string)

datatype raised = Exc exn | Exit exit_exn

text \<open>
  What \<open>json.loads\<close> returns: \<open>None\<close>, booleans, integers, floats (carried by their
  \<open>repr\<close>), strings, lists and dictionaries with string keys.
\<close>

datatype json =
    JNull | JBool bool | JInt int | JFloat string | JStr string
  | JArr "json list" | JObj "(string \<times> json) list"

definition quoted :: "string \<Rightarrow> string" where
  "quoted s = [CHR 0x27] @ s @ [CHR 0x27]"

fun type_name :: "json \<Rightarrow> string" where
  "type_name JNull = ''NoneType''"
| "type_name (JBool _) = ''bool''"
| "type_name (JInt _) = ''int''"
| "type_name (JFloat _) = ''float''"
| "type_name (JStr _) = ''str''"
| "type_name (JArr _) = ''list''"
| "type_name (JObj _) = ''dict''"

text \<open>\<open>v.get(k, d)\<close>: a dictionary lookup with a default; any other value has no \<open>get\<close>.\<close>

fun dict_get :: "json \<Rightarrow> string \<Rightarrow> json \<Rightarrow> exn + json" where
  "dict_get (JObj kvs) k d = Inr (case map_of kvs k of Some v \<Rightarrow> v | None \<Rightarrow> d)"
| "dict_get v k d =
     Inl (Exn AttributeError (quoted (type_name v) @ '' object has no attribute '' @ quoted ''get''))"

text \<open>
  \<open>str(v)\<close> and the f-string conversion \<open>{v}\<close>: a string is itself, every other value is
  its \<open>repr\<close>, which is a parameter.
\<close>

definition py_str :: "(json \<Rightarrow> string) \<Rightarrow> json \<Rightarrow> string" where
  "py_str repr v = (case v of JStr s \<Rightarrow> s | _ \<Rightarrow> repr v)"

text \<open>
  The part of \<open>bpy.context\<close> that \<open>execute_command\<close> reads: the area types of the
  current screen (\<open>None\<close> when there is no screen), the flag
  \<open>scene.blendermcp_use_polyhaven\<close>, and the rest of the scene, which only handlers touch.
\<close>

record 'a bpy_context =
  screen_areas :: "string list option"
  use_polyhaven :: bool
  scene :: 'a

text \<open>
  A response dictionary holds strings and, under \<open>result\<close>, the value a handler returned
  (any Python object, of type \<open>'r\<close>).
\<close>

datatype 'r pyval = Str string | Obj 'r

type_synonym 'r response = "(string \<times> 'r pyval) list"

definition success_response :: "'r \<Rightarrow> 'r response" where
  "success_response r = [(''status'', Str ''success''), (''result'', Obj r)]"

definition error_response :: "string \<Rightarrow> 'r response" where
  "error_response m = [(''status'', Str ''error''), (''message'', Str m)]"

section \<open>The command dispatcher (addon.py)\<close>

text \<open>
  The handler methods are outside the model. \<open>impl ctx name params h\<close> is the outcome of
  the call \<open>handler(**params)\<close> of the method \<open>name\<close> on host \<open>h\<close>, under the context
  override \<open>ctx\<close> (the index of the overriding area, if any): what it raises or the value
  it returns, and the host it leaves.
\<close>

type_synonym ('a, 'r) impl =
  "nat option \<Rightarrow> string \<Rightarrow> json \<Rightarrow> 'a bpy_context \<Rightarrow> (raised + 'r) \<times> 'a bpy_context"

text \<open>The dictionary \<open>handlers\<close> of \<open>_execute_command_internal\<close>: key and bound method.\<close>

definition base_handlers :: "(string \<times> string) list" where
  "base_handlers =
    [(''get_scene_info'', ''get_scene_info''),
     (''create_object'', ''create_object''),
     (''modify_object'', ''modify_object''),
     (''delete_object'', ''delete_object''),
     (''get_object_info'', ''get_object_info''),
     (''execute_code'', ''execute_code''),
     (''set_material'', ''set_material''),
     (''get_polyhaven_status'', ''get_polyhaven_status'')]"

definition polyhaven_handlers :: "(string \<times> string) list" where
  "polyhaven_handlers =
    [(''get_polyhaven_categories'', ''get_polyhaven_categories''),
     (''search_polyhaven_assets'', ''search_polyhaven_assets''),
     (''download_polyhaven_asset'', ''download_polyhaven_asset''),
     (''set_texture'', ''set_texture'')]"

definition handlers :: "bool \<Rightarrow> (string \<times> string) list" where
  "handlers flag = (if flag then base_handlers @ polyhaven_handlers else base_handlers)"

text \<open>\<open>handlers.get(cmd_type)\<close>: lists and dictionaries are unhashable keys.\<close>

fun handlers_get :: "(string \<times> string) list \<Rightarrow> json \<Rightarrow> exn + string option" where
  "handlers_get hs (JStr t) = Inr (map_of hs t)"
| "handlers_get hs (JArr _) = Inl (Exn TypeError (''unhashable type: '' @ quoted ''list''))"
| "handlers_get hs (JObj _) = Inl (Exn TypeError (''unhashable type: '' @ quoted ''dict''))"
| "handlers_get hs _ = Inr None"

text \<open>
  \<open>_execute_command_internal\<close>: the response returned, or what is raised. The call of
  \<open>get_polyhaven_status\<close> at line 238 is outside any \<open>try\<close>; the \<open>except Exception\<close> at
  line 273 turns an exception of the handler into an error response and lets anything else
  it raises pass.
\<close>

definition execute_command_internal ::
  "(json \<Rightarrow> string) \<Rightarrow> ('a, 'r) impl \<Rightarrow> nat option \<Rightarrow> json \<Rightarrow> 'a bpy_context
    \<Rightarrow> (raised + 'r response) \<times> 'a bpy_context" where
  "execute_command_internal repr impl ctx command h =
    (case dict_get command ''type'' JNull of
       Inl e \<Rightarrow> (Inl (Exc e), h)
     | Inr cmd_type \<Rightarrow>
    (case dict_get command ''params'' (JObj []) of
       Inl e \<Rightarrow> (Inl (Exc e), h)
     | Inr params \<Rightarrow>
       if cmd_type = JStr ''get_polyhaven_status'' then
         (case impl ctx ''get_polyhaven_status'' (JObj []) h of
            (Inl x, h') \<Rightarrow> (Inl x, h')
          | (Inr r, h') \<Rightarrow> (Inr (success_response r), h'))
       else
         (case handlers_get (handlers (use_polyhaven h)) cmd_type of
            Inl e \<Rightarrow> (Inl (Exc e), h)
          | Inr (Some handler) \<Rightarrow>
              (case impl ctx handler params h of
                 (Inr r, h') \<Rightarrow> (Inr (success_response r), h')
               | (Inl (Exc e), h') \<Rightarrow> (Inr (error_response (exc_str e)), h')
               | (Inl (Exit x), h') \<Rightarrow> (Inl (Exit x), h'))
          | Inr None \<Rightarrow>
              (Inr (error_response (''Unknown command type: '' @ py_str repr cmd_type)), h))))"

text \<open>
  \<open>[area for area in bpy.context.screen.areas if area.type == 'VIEW_3D'][0]\<close>: the first
  3D view, \<open>IndexError\<close> when the comprehension is empty.
\<close>

definition view3d_area :: "'a bpy_context \<Rightarrow> exn + nat" where
  "view3d_area h =
    (case screen_areas h of
       None \<Rightarrow>
         Inl (Exn AttributeError
               (quoted ''NoneType'' @ '' object has no attribute '' @ quoted ''areas''))
     | Some areas \<Rightarrow>
        (case filter (\<lambda>i. areas ! i = ''VIEW_3D'') [0 ..< length areas] of
           [] \<Rightarrow> Inl (Exn IndexError ''list index out of range'')
         | i # _ \<Rightarrow> Inr i))"

definition needs_view3d :: "json list" where
  "needs_view3d = [JStr ''create_object'', JStr ''modify_object'', JStr ''delete_object'']"

text \<open>
  \<open>execute_command\<close>: the body of the \<open>try\<close> first, then the function with its
  \<open>except Exception\<close> (line 212), which turns an exception into an error response. What
  is raised and is not an instance of \<open>Exception\<close> leaves the function: the result is then
  \<open>Inl\<close> of it.
\<close>

definition execute_command_body ::
  "(json \<Rightarrow> string) \<Rightarrow> ('a, 'r) impl \<Rightarrow> json \<Rightarrow> 'a bpy_context
    \<Rightarrow> (raised + 'r response) \<times> 'a bpy_context" where
  "execute_command_body repr impl command h =
    (case dict_get command ''type'' JNull of
       Inl e \<Rightarrow> (Inl (Exc e), h)
     | Inr cmd_type \<Rightarrow>
    (case dict_get command ''params'' (JObj []) of
       Inl e \<Rightarrow> (Inl (Exc e), h)
     | Inr params \<Rightarrow>
       if cmd_type \<in> set needs_view3d then
         (case view3d_area h of
            Inl e \<Rightarrow> (Inl (Exc e), h)
          | Inr area \<Rightarrow> execute_command_internal repr impl (Some area) command h)
       else execute_command_internal repr impl None command h))"

definition execute_command ::
  "(json \<Rightarrow> string) \<Rightarrow> ('a, 'r) impl \<Rightarrow> json \<Rightarrow> 'a bpy_context
    \<Rightarrow> (exit_exn + 'r response) \<times> 'a bpy_context" where
  "execute_command repr impl command h =
    (case execute_command_body repr impl command h of
       (Inr response, h') \<Rightarrow> (Inr response, h')
     | (Inl (Exc e), h') \<Rightarrow> (Inr (error_response (exc_str e)), h')
     | (Inl (Exit x), h') \<Rightarrow> (Inl x, h'))"

section \<open>The polling server (addon.py)\<close>

text \<open>
  The fields of \<open>BlenderMCPServer\<close> that \<open>_process_server\<close> reads and writes. Sockets are
  identified by a number.
\<close>

record server =
  running :: bool
  socket :: "sock option"
  client :: "sock option"
  buffer :: bytes

text \<open>What a step does to the outside: closing a socket, writing bytes to one.\<close>

datatype event = Close sock | Sendall sock bytes

text \<open>
  What the outside does to a step: the outcome of each socket call the step may make.
  \<open>accept_result\<close> is that of \<open>self.socket.accept()\<close>, \<open>recv_result\<close> that of
  \<open>self.client.recv(8192)\<close> (the empty byte string when the peer has closed), and
  \<open>sendall_result\<close> the exception \<open>self.client.sendall\<close> raises, if any. The calls
  \<open>setblocking\<close>, \<open>close\<close> and \<open>print\<close> are taken not to raise.
\<close>

record server_io =
  accept_result :: "exn + sock"
  recv_result :: "exn + bytes"
  sendall_result :: "exn option"

text \<open>
  The library and the handlers a step runs against: \<open>loads b\<close> is
  \<open>json.loads(b.decode('utf-8'))\<close>, \<open>dumps r\<close> is \<open>json.dumps(r).encode('utf-8')\<close>.
\<close>

record ('a, 'r) env =
  loads :: "bytes \<Rightarrow> exn + json"
  dumps :: "'r response \<Rightarrow> exn + bytes"
  py_repr :: "json \<Rightarrow> string"
  handlers_impl :: "('a, 'r) impl"

text \<open>Lines 117 to 127: accept a client when there is none; both handlers only log.\<close>

definition accept_client :: "server_io \<Rightarrow> server \<Rightarrow> server" where
  "accept_client io s =
    (if client s = None \<and> socket s \<noteq> None then
       (case accept_result io of
          Inr c \<Rightarrow> s\<lparr>client := Some c\<rparr>
        | Inl e \<Rightarrow> if exc_class e = BlockingIOError then s else s)
     else s)"

text \<open>
  Lines 142 to 150, the body of the innermost \<open>try\<close>: parse the buffer, clear it, execute,
  serialise, send. The first component is what leaves the body by \<open>raise\<close>, if anything;
  the state is the one reached when it was raised.
\<close>

definition parse_and_reply ::
  "('a, 'r) env \<Rightarrow> server_io \<Rightarrow> sock \<Rightarrow> server \<Rightarrow> 'a bpy_context
    \<Rightarrow> raised option \<times> server \<times> 'a bpy_context \<times> event list" where
  "parse_and_reply env io c s h =
    (case loads env (buffer s) of
       Inl e \<Rightarrow> (Some (Exc e), s, h, [])
     | Inr command \<Rightarrow>
        (case execute_command (py_repr env) (handlers_impl env) command h of
           (Inl x, h') \<Rightarrow> (Some (Exit x), s\<lparr>buffer := []\<rparr>, h', [])
         | (Inr response, h') \<Rightarrow>
             (case dumps env response of
                Inl e \<Rightarrow> (Some (Exc e), s\<lparr>buffer := []\<rparr>, h', [])
              | Inr response_json \<Rightarrow>
                 (case sendall_result io of
                    Some e \<Rightarrow> (Some (Exc e), s\<lparr>buffer := []\<rparr>, h', [])
                  | None \<Rightarrow> (None, s\<lparr>buffer := []\<rparr>, h', [Sendall c response_json])))))"

text \<open>Lines 138 to 153: append the data, then the \<open>try\<close> with \<open>except json.JSONDecodeError: pass\<close>.\<close>

definition handle_data ::
  "('a, 'r) env \<Rightarrow> server_io \<Rightarrow> sock \<Rightarrow> bytes \<Rightarrow> server \<Rightarrow> 'a bpy_context
    \<Rightarrow> raised option \<times> server \<times> 'a bpy_context \<times> event list" where
  "handle_data env io c data s h =
    (case parse_and_reply env io c (s\<lparr>buffer := buffer s @ data\<rparr>) h of
       (Some (Exc e), s', h', evs) \<Rightarrow>
         if exc_class e = JSONDecodeError then (None, s', h', evs)
         else (Some (Exc e), s', h', evs)
     | (Some (Exit x), s', h', evs) \<Rightarrow> (Some (Exit x), s', h', evs)
     | (None, s', h', evs) \<Rightarrow> (None, s', h', evs))"

text \<open>
  Lines 133 to 167: receive, then either handle the data or, on an empty read, drop the
  client; \<open>except BlockingIOError: pass\<close>, and \<open>except Exception\<close> drops the client.
  What is not an instance of \<open>Exception\<close> passes this handler and the two outer ones
  (lines 169 to 179), which are \<open>except Exception\<close> too: the first component is then
  what leaves \<open>_process_server\<close>. Otherwise the outer handlers guard only the statements
  of this handler, which are taken not to raise.
\<close>

definition serve_client ::
  "('a, 'r) env \<Rightarrow> server_io \<Rightarrow> sock \<Rightarrow> server \<Rightarrow> 'a bpy_context
    \<Rightarrow> exit_exn option \<times> server \<times> 'a bpy_context \<times> event list" where
  "serve_client env io c s h =
    (case (case recv_result io of
             Inl e \<Rightarrow> (Some (Exc e), s, h, [])
           | Inr data \<Rightarrow>
               if data \<noteq> [] then handle_data env io c data s h
               else (None, s\<lparr>client := None, buffer := []\<rparr>, h, [Close c])) of
       (None, s', h', evs) \<Rightarrow> (None, s', h', evs)
     | (Some (Exc e), s', h', evs) \<Rightarrow>
         if exc_class e = BlockingIOError then (None, s', h', evs)
         else (None, s'\<lparr>client := None, buffer := []\<rparr>, h', evs @ [Close c])
     | (Some (Exit x), s', h', evs) \<Rightarrow> (Some x, s', h', evs))"

text \<open>
  \<open>_process_server\<close>: the value returned to the timer (\<open>None\<close> unregisters it,
  \<open>0.1\<close> asks for the next call) or, as \<open>Inl\<close>, what the call raises; the new state, the
  new host and what was done.
\<close>

definition process_server ::
  "('a, 'r) env \<Rightarrow> server_io \<Rightarrow> server \<Rightarrow> 'a bpy_context
    \<Rightarrow> (exit_exn + real option) \<times> server \<times> 'a bpy_context \<times> event list" where
  "process_server env io s h =
    (if \<not> running s then (Inr None, s, h, [])
     else
       (case client (accept_client io s) of
          None \<Rightarrow> (Inr (Some (1 / 10)), accept_client io s, h, [])
        | Some c \<Rightarrow>
            (case serve_client env io c (accept_client io s) h of
               (None, s', h', evs) \<Rightarrow> (Inr (Some (1 / 10)), s', h', evs)
             | (Some x, s', h', evs) \<Rightarrow> (Inl x, s', h', evs))))"

text \<open>The timer: one step per tick, until a step returns \<open>None\<close> or raises.\<close>

fun run ::
  "('a, 'r) env \<Rightarrow> server_io list \<Rightarrow> server \<Rightarrow> 'a bpy_context
    \<Rightarrow> server \<times> 'a bpy_context \<times> event list" where
  "run env [] s h = (s, h, [])"
| "run env (io # ios) s h =
    (case process_server env io s h of
       (Inr (Some d), s', h', evs) \<Rightarrow>
         (case run env ios s' h' of (s'', h'', evs') \<Rightarrow> (s'', h'', evs @ evs'))
     | (Inr None, s', h', evs) \<Rightarrow> (s', h', evs)
     | (Inl x, s', h', evs) \<Rightarrow> (s', h', evs))"

text \<open>
  \<open>bytes.decode('utf-8')\<close> accepts exactly the well-formed UTF-8 sequences: no stray
  continuation byte, no truncated or overlong form, no surrogate, nothing above U+10FFFF.
\<close>

definition cont :: "nat \<Rightarrow> bool" where
  "cont b = (0x80 \<le> b \<and> b \<le> 0xBF)"

fun utf8_valid :: "nat list \<Rightarrow> bool" where
  "utf8_valid [] = True"
| "utf8_valid (b # bs) =
    (if b < 0x80 then utf8_valid bs
     else if 0xC2 \<le> b \<and> b \<le> 0xDF then
       (case bs of c1 # r \<Rightarrow> cont c1 \<and> utf8_valid r | _ \<Rightarrow> False)
     else if 0xE0 \<le> b \<and> b \<le> 0xEF then
       (case bs of
          c1 # c2 # r \<Rightarrow>
            (if b = 0xE0 then 0xA0 \<le> c1 \<and> c1 \<le> 0xBF
             else if b = 0xED then 0x80 \<le> c1 \<and> c1 \<le> 0x9F
             else cont c1) \<and> cont c2 \<and> utf8_valid r
        | _ \<Rightarrow> False)
     else if 0xF0 \<le> b \<and> b \<le> 0xF4 then
       (case bs of
          c1 # c2 # c3 # r \<Rightarrow>
            (if b = 0xF0 then 0x90 \<le> c1 \<and> c1 \<le> 0xBF
             else if b = 0xF4 then 0x80 \<le> c1 \<and> c1 \<le> 0x8F
             else cont c1) \<and> cont c2 \<and> cont c3 \<and> utf8_valid r
        | _ \<Rightarrow> False)
     else False)"

text \<open>
  \<open>json.loads(b.decode('utf-8'))\<close> with the decoding written out: \<open>UnicodeDecodeError\<close>
  (its text is \<open>umsg b\<close>) before the JSON decoder \<open>json_loads\<close> is reached.
\<close>

definition py_loads :: "(bytes \<Rightarrow> string) \<Rightarrow> (bytes \<Rightarrow> exn + json) \<Rightarrow> bytes \<Rightarrow> exn + json" where
  "py_loads umsg json_loads b =
    (if utf8_valid (map of_char b) then json_loads b
     else Inl (Exn UnicodeDecodeError (umsg b)))"

section \<open>The connection manager (blender_mcp_server.py)\<close>

record connection =
  host :: string
  port :: nat
  sock :: "sock option"

text \<open>The socket calls a method makes, in order.\<close>

datatype call = ConnectCall | SendallCall bytes | RecvCall

text \<open>
  The outcome of each socket call \<open>send_command\<close> may make: \<open>connect_result\<close> for
  creating and connecting the socket, \<open>send_result\<close> the exception \<open>sendall\<close> raises, if
  any, and \<open>recvs\<close> the outcomes of the successive \<open>recv\<close> calls, each with the time
  the call took. \<open>settimeout\<close> and the logger are taken not to raise.
\<close>

record client_io =
  connect_result :: "exn + sock"
  send_result :: "exn option"
  recvs :: "(real \<times> (exn + bytes)) list"

definition connect :: "client_io \<Rightarrow> connection \<Rightarrow> bool \<times> connection \<times> call list" where
  "connect io c =
    (case sock c of
       Some _ \<Rightarrow> (True, c, [])
     | None \<Rightarrow>
        (case connect_result io of
           Inr k \<Rightarrow> (True, c\<lparr>sock := Some k\<rparr>, [ConnectCall])
         | Inl e \<Rightarrow> (False, c\<lparr>sock := None\<rparr>, [ConnectCall])))"

text \<open>
  How the \<open>while True\<close> loop of \<open>receive_full_response\<close> is left: by \<open>return data\<close>, by
  an exception, by \<open>break\<close>, or not at all within the reads that are given.
\<close>

datatype loop_exit = Return bytes | Raise exn | Break | Pending

text \<open>
  Lines 100 to 123, one pass of the loop body without its handlers: the exception raised,
  or the data to return, or \<open>None\<close> for \<open>continue\<close>; with the chunks.
\<close>

definition loop_body ::
  "(bytes \<Rightarrow> exn + json) \<Rightarrow> bytes list \<Rightarrow> exn + bytes \<Rightarrow> loop_exit option \<times> bytes list" where
  "loop_body lds chunks r =
    (case r of
       Inl e \<Rightarrow> (Some (Raise e), chunks)
     | Inr chunk \<Rightarrow>
        if chunk = [] then
          (if chunks = [] then
             (Some (Raise (Exn PlainException ''Connection closed before receiving any data'')),
              chunks)
           else (Some Break, chunks))
        else
          (case lds (concat (chunks @ [chunk])) of
             Inr _ \<Rightarrow> (Some (Return (concat (chunks @ [chunk]))), chunks @ [chunk])
           | Inl e \<Rightarrow>
               if exc_class e = JSONDecodeError then (None, chunks @ [chunk])
               else (Some (Raise e), chunks @ [chunk])))"

text \<open>
  The loop with the handlers of the inner \<open>try\<close>: \<open>socket.timeout\<close> breaks, a connection
  error is raised again, anything else propagates. The result counts the \<open>recv\<close> calls made.
\<close>

fun recv_loop ::
  "(bytes \<Rightarrow> exn + json) \<Rightarrow> bytes list \<Rightarrow> (exn + bytes) list \<Rightarrow> loop_exit \<times> bytes list \<times> nat" where
  "recv_loop lds chunks [] = (Pending, chunks, 0)"
| "recv_loop lds chunks (r # rs) =
    (case loop_body lds chunks r of
       (None, chunks') \<Rightarrow>
         (case recv_loop lds chunks' rs of (x, cs, n) \<Rightarrow> (x, cs, Suc n))
     | (Some (Raise e), chunks') \<Rightarrow>
         if exc_class e = SocketTimeout then (Break, chunks', 1) else (Raise e, chunks', 1)
     | (Some x, chunks') \<Rightarrow> (x, chunks', 1))"

text \<open>Lines 139 to 152: after the loop, try what has been received.\<close>

definition finalize :: "(bytes \<Rightarrow> exn + json) \<Rightarrow> bytes list \<Rightarrow> exn + bytes" where
  "finalize lds chunks =
    (if chunks \<noteq> [] then
       (case lds (concat chunks) of
          Inr _ \<Rightarrow> Inr (concat chunks)
        | Inl e \<Rightarrow>
            if exc_class e = JSONDecodeError
            then Inl (Exn PlainException ''Incomplete JSON response received'')
            else Inl e)
     else Inl (Exn PlainException ''No data received''))"

text \<open>
  \<open>receive_full_response\<close>: the data returned or the exception raised (\<open>None\<close> while the
  loop is still reading after the last given read), and the number of \<open>recv\<close> calls made.
  The outer \<open>except socket.timeout\<close> falls through to the final attempt; the outer
  \<open>except Exception\<close> raises again.
\<close>

definition receive_full_response ::
  "(bytes \<Rightarrow> exn + json) \<Rightarrow> (exn + bytes) list \<Rightarrow> (exn + bytes) option \<times> nat" where
  "receive_full_response lds rs =
    (case recv_loop lds [] rs of
       (Return data, chunks, n) \<Rightarrow> (Some (Inr data), n)
     | (Raise e, chunks, n) \<Rightarrow>
         if exc_class e = SocketTimeout then (Some (finalize lds chunks), n)
         else (Some (Inl e), n)
     | (Break, chunks, n) \<Rightarrow> (Some (finalize lds chunks), n)
     | (Pending, chunks, n) \<Rightarrow> (None, n))"

text \<open>
  The time \<open>receive_full_response\<close> spends in \<open>recv\<close>: the sum of the times of the calls
  it made. \<open>sock.settimeout(15.0)\<close> bounds each call: a call returns or raises within 15
  time units, and raises \<open>socket.timeout\<close> only when the 15 units have passed.
\<close>

definition time_receiving ::
  "(bytes \<Rightarrow> exn + json) \<Rightarrow> (real \<times> (exn + bytes)) list \<Rightarrow> real" where
  "time_receiving lds evs =
    sum_list (take (snd (receive_full_response lds (map snd evs))) (map fst evs))"

fun is_timeout :: "exn + bytes \<Rightarrow> bool" where
  "is_timeout (Inl e) = (exc_class e = SocketTimeout)"
| "is_timeout (Inr _) = False"

definition timed_ok :: "real \<times> (exn + bytes) \<Rightarrow> bool" where
  "timed_ok ev =
    (0 \<le> fst ev \<and> fst ev \<le> 15 \<and> (if is_timeout (snd ev) then fst ev = 15 else True))"

text \<open>\<open>x or {}\<close>: the empty dictionary when \<open>x\<close> is false in a boolean context.\<close>

fun falsy :: "json \<Rightarrow> bool" where
  "falsy JNull = True"
| "falsy (JBool b) = (\<not> b)"
| "falsy (JInt i) = (i = 0)"
| "falsy (JFloat f) = (f = ''0.0'' \<or> f = ''-0.0'')"
| "falsy (JStr s) = (s = [])"
| "falsy (JArr xs) = (xs = [])"
| "falsy (JObj kvs) = (kvs = [])"

text \<open>
  Lines 196 to 203: what \<open>send_command\<close> makes of the parsed response. The first
  \<open>get\<close> is the one in the log line.
\<close>

definition interpret_response :: "(json \<Rightarrow> string) \<Rightarrow> json \<Rightarrow> exn + json" where
  "interpret_response repr response =
    (case dict_get response ''status'' (JStr ''unknown'') of
       Inl e \<Rightarrow> Inl e
     | Inr _ \<Rightarrow>
    (case dict_get response ''status'' JNull of
       Inl e \<Rightarrow> Inl e
     | Inr status \<Rightarrow>
        if status = JStr ''error'' then
          (case dict_get response ''message'' (JStr ''Unknown error from Blender'') of
             Inl e \<Rightarrow> Inl e
           | Inr m \<Rightarrow> Inl (Exn PlainException (py_str repr m)))
        else dict_get response ''result'' (JObj [])))"

text \<open>
  Lines 181 to 203, the body of the \<open>try\<close> of \<open>send_command\<close>: the value returned or
  the exception raised (\<open>None\<close> while still receiving), and the calls made.
  \<open>cdumps v\<close> is \<open>json.dumps(v).encode('utf-8')\<close>.
\<close>

definition send_command_body ::
  "(json \<Rightarrow> exn + bytes) \<Rightarrow> (bytes \<Rightarrow> exn + json) \<Rightarrow> (json \<Rightarrow> string) \<Rightarrow> client_io
    \<Rightarrow> json \<Rightarrow> (exn + json) option \<times> call list" where
  "send_command_body cdumps lds repr io command =
    (case cdumps command of
       Inl e \<Rightarrow> (Some (Inl e), [])
     | Inr payload \<Rightarrow>
        (case send_result io of
           Some e \<Rightarrow> (Some (Inl e), [SendallCall payload])
         | None \<Rightarrow>
            (case receive_full_response lds (map snd (recvs io)) of
               (None, n) \<Rightarrow> (None, SendallCall payload # replicate n RecvCall)
             | (Some (Inl e), n) \<Rightarrow> (Some (Inl e), SendallCall payload # replicate n RecvCall)
             | (Some (Inr response_data), n) \<Rightarrow>
                 (case lds response_data of
                    Inl e \<Rightarrow> (Some (Inl e), SendallCall payload # replicate n RecvCall)
                  | Inr response \<Rightarrow>
                      (Some (interpret_response repr response),
                       SendallCall payload # replicate n RecvCall)))))"

text \<open>Lines 174 to 177: the command dictionary.\<close>

definition command_dict :: "string \<Rightarrow> json \<Rightarrow> json" where
  "command_dict command_type params =
    JObj [(''type'', JStr command_type),
          (''params'', if falsy params then JObj [] else params)]"

text \<open>
  \<open>send_command\<close>: connect when there is no socket, build the command, run the body, and
  translate what it raises. Only the \<open>json.JSONDecodeError\<close> handler keeps the socket.
\<close>

definition send_command ::
  "(json \<Rightarrow> exn + bytes) \<Rightarrow> (bytes \<Rightarrow> exn + json) \<Rightarrow> (json \<Rightarrow> string) \<Rightarrow> client_io
    \<Rightarrow> connection \<Rightarrow> string \<Rightarrow> json \<Rightarrow> (exn + json) option \<times> connection \<times> call list" where
  "send_command cdumps lds repr io c command_type params =
    (case (case sock c of None \<Rightarrow> connect io c | Some _ \<Rightarrow> (True, c, [])) of
       (False, c', calls) \<Rightarrow>
         (Some (Inl (Exn ConnectionError ''Not connected to Blender'')), c', calls)
     | (True, c', calls) \<Rightarrow>
        (case send_command_body cdumps lds repr io (command_dict command_type params) of
           (None, calls') \<Rightarrow> (None, c', calls @ calls')
         | (Some (Inr result), calls') \<Rightarrow> (Some (Inr result), c', calls @ calls')
         | (Some (Inl e), calls') \<Rightarrow>
             if exc_class e = SocketTimeout then
               (Some (Inl (Exn PlainException
                  ''Timeout waiting for Blender response - try simplifying your request'')),
                c'\<lparr>sock := None\<rparr>, calls @ calls')
             else if exc_class e = ConnectionError then
               (Some (Inl (Exn PlainException (''Connection to Blender lost: '' @ exc_str e))),
                c'\<lparr>sock := None\<rparr>, calls @ calls')
             else if exc_class e = JSONDecodeError then
               (Some (Inl (Exn PlainException (''Invalid response from Blender: '' @ exc_str e))),
                c', calls @ calls')
             else
               (Some (Inl (Exn PlainException
                  (''Communication error with Blender: '' @ exc_str e))),
                c'\<lparr>sock := None\<rparr>, calls @ calls')))"

section \<open>Concrete library instances\<close>

text \<open>
  The theorems below hold for every decoder and encoder. Where one is evaluated on a
  concrete input, the decoder is given by the finite table of the byte strings it accepts
  there (every other input is a \<open>JSONDecodeError\<close>), and the encoder writes a response
  dictionary whose strings need no escaping, in the layout of \<open>json.dumps\<close>; the handler
  result is written by \<open>f\<close>, which may raise as \<open>json.dumps\<close> does on a value it cannot
  serialise.
\<close>

definition table_loads :: "(bytes \<times> json) list \<Rightarrow> bytes \<Rightarrow> exn + json" where
  "table_loads tbl b =
    (case map_of tbl b of
       Some v \<Rightarrow> Inr v
     | None \<Rightarrow> Inl (Exn JSONDecodeError ''Expecting value''))"

definition dquoted :: "string \<Rightarrow> string" where
  "dquoted s = [CHR 0x22] @ s @ [CHR 0x22]"

fun dumps_items :: "('r \<Rightarrow> exn + string) \<Rightarrow> 'r response \<Rightarrow> exn + string" where
  "dumps_items f [] = Inr []"
| "dumps_items f ((k, v) # kvs) =
    (case (case v of Str x \<Rightarrow> Inr (dquoted x) | Obj r \<Rightarrow> f r) of
       Inl e \<Rightarrow> Inl e
     | Inr x \<Rightarrow>
        (case dumps_items f kvs of
           Inl e \<Rightarrow> Inl e
         | Inr rest \<Rightarrow>
             Inr (dquoted k @ '': '' @ x @ (if kvs = [] then [] else '', '' @ rest))))"

definition simple_dumps :: "('r \<Rightarrow> exn + string) \<Rightarrow> 'r response \<Rightarrow> exn + bytes" where
  "simple_dumps f r =
    (case dumps_items f r of Inl e \<Rightarrow> Inl e | Inr x \<Rightarrow> Inr (''{'' @ x @ ''}''))"

text \<open>
  A server with a client connected and an empty buffer, a host with a 3D view, a library
  whose decoder checks the UTF-8 encoding and then looks the text up, and two requests: one
  in ASCII, and one whose last parameter holds the two-byte character U+00E9, cut between
  its two bytes; \<open>split_head_error\<close> is the text of the \<open>UnicodeDecodeError\<close> that
  decoding the first part raises. \<open>reads data\<close> is a tick on which \<open>recv\<close> returns \<open>data\<close>, no connection
  is pending and \<open>sendall\<close> succeeds.
\<close>

definition sample_request :: bytes where
  \<open>sample_request = ''{"type": "get_scene_info", "params": {}}''\<close>

definition split_head :: bytes where
  \<open>split_head = ''{"type": "get_object_info", "params": {"name": "caf'' @ [CHR 0xC3]\<close>

definition split_tail :: bytes where
  \<open>split_tail = [CHR 0xA9] @ ''"}}''\<close>

definition sample_table :: "(bytes \<times> json) list" where
  "sample_table =
    [(sample_request, JObj [(''type'', JStr ''get_scene_info''), (''params'', JObj [])]),
     (split_head @ split_tail,
      JObj [(''type'', JStr ''get_object_info''),
            (''params'', JObj [(''name'', JStr (''caf'' @ [CHR 0xC3, CHR 0xA9]))])])]"

definition split_head_error :: string where
  "split_head_error =
    quoted ''utf-8'' @ '' codec can't decode byte 0xc3 in position 51: unexpected end of data''"

definition sample_env :: "(unit, string) env" where
  \<open>sample_env =
    \<lparr>loads = py_loads (\<lambda>b. split_head_error) (table_loads sample_table),
     dumps = simple_dumps Inr,
     py_repr = (\<lambda>v. []),
     handlers_impl = (\<lambda>ctx name params h. (Inr ''{"name": "Scene"}'', h))\<rparr>\<close>

definition sample_server :: server where
  "sample_server = \<lparr>running = True, socket = Some 3, client = Some 7, buffer = []\<rparr>"

definition sample_host :: "unit bpy_context" where
  "sample_host = \<lparr>screen_areas = Some [''VIEW_3D''], use_polyhaven = False, scene = ()\<rparr>"

definition reads :: "bytes \<Rightarrow> server_io" where
  "reads data =
    \<lparr>accept_result = Inl (Exn BlockingIOError ''Resource temporarily unavailable''),
     recv_result = Inr data, sendall_result = None\<rparr>"

text \<open>
  Other ticks: the peer has closed, \<open>recv\<close> fails, nothing has arrived, \<open>sendall\<close> fails,
  \<open>accept\<close> fails; and a server that holds the beginning of a request.
\<close>

definition send_fails :: "bytes \<Rightarrow> server_io" where
  "send_fails data =
    \<lparr>accept_result = Inl (Exn BlockingIOError ''Resource temporarily unavailable''),
     recv_result = Inr data,
     sendall_result = Some (Exn ConnectionError ''[Errno 32] Broken pipe'')\<rparr>"






text \<open>
  On the client side: a response, the same response in two parts, an error response, the
  decoder that accepts the two whole responses, and a delivery of the two parts that takes
  10 time units for each.
\<close>

definition sample_reply :: bytes where
  \<open>sample_reply = ''{"status": "success", "result": {"name": "Scene"}}''\<close>

definition reply_head :: bytes where
  \<open>reply_head = ''{"status": "success", ''\<close>

definition reply_tail :: bytes where
  \<open>reply_tail = ''"result": {"name": "Scene"}}''\<close>

definition error_reply :: bytes where
  \<open>error_reply = ''{"status": "error", "message": "Unknown command type: nonexistent"}''\<close>

definition reply_table :: "(bytes \<times> json) list" where
  "reply_table =
    [(sample_reply,
      JObj [(''status'', JStr ''success''), (''result'', JObj [(''name'', JStr ''Scene'')])]),
     (error_reply,
      JObj [(''status'', JStr ''error''),
            (''message'', JStr ''Unknown command type: nonexistent'')])]"

definition slow_reads :: "(real \<times> (exn + bytes)) list" where
  "slow_reads = [(10, Inr reply_head), (10, Inr reply_tail)]"

text \<open>
  A connection with and without a socket, and the outcomes of the socket calls of one
  \<open>send_command\<close>: the connection is refused; \<open>sendall\<close> fails; the peer resets the
  connection in the middle of a response; a response arrives; an error response arrives.
  \<open>is_sendall\<close> picks the \<open>sendall\<close> calls out of a list of calls.
\<close>

definition disconnected :: connection where
  "disconnected = \<lparr>host = ''localhost'', port = 9876, sock = None\<rparr>"

definition connected :: connection where
  "connected = \<lparr>host = ''localhost'', port = 9876, sock = Some 5\<rparr>"

definition io_refused :: client_io where
  "io_refused =
    \<lparr>connect_result = Inl (Exn ConnectionError ''[Errno 111] Connection refused''),
     send_result = None, recvs = []\<rparr>"

definition io_broken :: client_io where
  "io_broken =
    \<lparr>connect_result = Inr 6,
     send_result = Some (Exn ConnectionError ''[Errno 32] Broken pipe''), recvs = []\<rparr>"

definition io_reset :: client_io where
  "io_reset =
    \<lparr>connect_result = Inr 6, send_result = None,
     recvs = [(1, Inr reply_head),
              (2, Inl (Exn ConnectionError ''[Errno 104] Connection reset by peer''))]\<rparr>"

definition io_ok :: client_io where
  "io_ok = \<lparr>connect_result = Inr 6, send_result = None, recvs = [(1, Inr sample_reply)]\<rparr>"

definition io_error_reply :: client_io where
  "io_error_reply =
    \<lparr>connect_result = Inr 6, send_result = None, recvs = [(1, Inr error_reply)]\<rparr>"

definition is_sendall :: "call \<Rightarrow> bool" where
  "is_sendall x = (case x of SendallCall _ \<Rightarrow> True | _ \<Rightarrow> False)"



definition exit_impl :: "(unit, string) impl" where
  "exit_impl ctx name params h = (Inl (Exit (ExitExn SystemExit [])), h)"



section \<open>Properties of the dispatcher\<close>

lemma handlers_get_unregistered:
  "t \<notin> set (map fst (handlers flag)) \<Longrightarrow> map_of (handlers flag) t = None"
  by (simp add: map_of_eq_None_iff)

lemma unregistered_not_status:
  "t \<notin> set (map fst (handlers flag)) \<Longrightarrow> t \<noteq> ''get_polyhaven_status''"
  by (auto simp: handlers_def base_handlers_def split: if_splits)

lemma unregistered_not_view3d:
  "t \<notin> set (map fst (handlers flag)) \<Longrightarrow> JStr t \<notin> set needs_view3d"
  by (auto simp: handlers_def base_handlers_def needs_view3d_def split: if_splits)



text \<open>
  Claim C3. A command whose type string is not a key of the handler dictionary, as the
  feature flag makes it, gets exactly the dictionary with \<open>status\<close> \<open>error\<close> and
  \<open>message\<close> \<open>Unknown command type: <type>\<close>, whatever its other entries are. The result
  is a returned response (\<open>Inr\<close>): nothing is raised, whatever the handlers would do, and
  the host is left as it was.
\<close>

theorem unknown_command_type:
  assumes "map_of kvs ''type'' = Some (JStr t)"
    and "t \<notin> set (map fst (handlers (use_polyhaven h)))"
  shows "execute_command repr impl (JObj kvs) h =
          (Inr [(''status'', Str ''error''),
                (''message'', Str (''Unknown command type: '' @ t))], h)"
  using assms(1) handlers_get_unregistered[OF assms(2)] unregistered_not_status[OF assms(2)]
    unregistered_not_view3d[OF assms(2)]
  by (simp add: execute_command_def execute_command_body_def execute_command_internal_def
      py_str_def error_response_def)

theorem unknown_command_type_witness:
  "map_of [(''type'', JStr ''nonexistent''), (''params'', JObj [])] ''type''
      = Some (JStr ''nonexistent'')
   \<and> ''nonexistent'' \<notin> set (map fst (handlers (use_polyhaven
          \<lparr>screen_areas = Some [''VIEW_3D''], use_polyhaven = False, scene = ()\<rparr>)))
   \<and> execute_command (\<lambda>v. []) exit_impl
        (JObj [(''type'', JStr ''nonexistent''), (''params'', JObj [])])
        \<lparr>screen_areas = Some [''VIEW_3D''], use_polyhaven = False, scene = ()\<rparr>
      = (Inr [(''status'', Str ''error''),
              (''message'', Str ''Unknown command type: nonexistent'')],
         \<lparr>screen_areas = Some [''VIEW_3D''], use_polyhaven = False, scene = ()\<rparr>)"
  using unknown_command_type[of "[(''type'', JStr ''nonexistent''), (''params'', JObj [])]"
      "''nonexistent''"
      "\<lparr>screen_areas = Some [''VIEW_3D''], use_polyhaven = False, scene = ()\<rparr>"
      "\<lambda>v. []" exit_impl]
  by (simp add: handlers_def base_handlers_def)




text \<open>
  Claim C10. For \<open>create_object\<close>, \<open>modify_object\<close> and \<open>delete_object\<close> on a screen
  without a \<open>VIEW_3D\<close> area, the area lookup raises \<open>IndexError\<close>: the result is the
  returned dictionary with \<open>status\<close> \<open>error\<close> and the text of the \<open>IndexError\<close> as
  \<open>message\<close>, nothing is raised, and the host is unchanged. The result is the same for
  every handler implementation \<open>impl\<close>: no handler is called.
\<close>

theorem no_view3d_area:
  assumes "map_of kvs ''type'' = Some (JStr t)"
    and "t \<in> {''create_object'', ''modify_object'', ''delete_object''}"
    and "screen_areas h = Some areas"
    and "''VIEW_3D'' \<notin> set areas"
  shows "execute_command repr impl (JObj kvs) h =
          (Inr [(''status'', Str ''error''), (''message'', Str ''list index out of range'')], h)"
proof -
  have "filter (\<lambda>i. areas ! i = ''VIEW_3D'') [0 ..< length areas] = []"
    using assms(4) nth_mem by (fastforce simp: filter_empty_conv)
  then have "view3d_area h = Inl (Exn IndexError ''list index out of range'')"
    using assms(3) by (simp add: view3d_area_def)
  moreover have "JStr t \<in> set needs_view3d" using assms(2) by (auto simp: needs_view3d_def)
  ultimately show ?thesis using assms(1)
    by (simp add: execute_command_def execute_command_body_def error_response_def)
qed

theorem no_view3d_area_witness:
  "map_of [(''type'', JStr ''delete_object''), (''params'', JObj [(''name'', JStr ''Cube'')])]
      ''type'' = Some (JStr ''delete_object'')
   \<and> ''delete_object'' \<in> {''create_object'', ''modify_object'', ''delete_object''}
   \<and> screen_areas \<lparr>screen_areas = Some [''OUTLINER'', ''PROPERTIES''], use_polyhaven = False,
        scene = (5::nat)\<rparr> = Some [''OUTLINER'', ''PROPERTIES'']
   \<and> ''VIEW_3D'' \<notin> set [''OUTLINER'', ''PROPERTIES'']
   \<and> execute_command (\<lambda>v. [])
        (\<lambda>ctx name params h. (Inr (), h\<lparr>scene := 0\<rparr>))
        (JObj [(''type'', JStr ''delete_object''), (''params'', JObj [(''name'', JStr ''Cube'')])])
        \<lparr>screen_areas = Some [''OUTLINER'', ''PROPERTIES''], use_polyhaven = False,
         scene = (5::nat)\<rparr>
      = (Inr [(''status'', Str ''error''), (''message'', Str ''list index out of range'')],
         \<lparr>screen_areas = Some [''OUTLINER'', ''PROPERTIES''], use_polyhaven = False,
          scene = (5::nat)\<rparr>)"
  using no_view3d_area[of
      "[(''type'', JStr ''delete_object''), (''params'', JObj [(''name'', JStr ''Cube'')])]"
      "''delete_object''"
      "\<lparr>screen_areas = Some [''OUTLINER'', ''PROPERTIES''], use_polyhaven = False,
        scene = (5::nat)\<rparr>"
      "[''OUTLINER'', ''PROPERTIES'']" "\<lambda>v. []"
      "\<lambda>ctx name params h. (Inr (), h\<lparr>scene := 0\<rparr>)"]
  by simp

section \<open>Properties of the polling server\<close>

lemma accept_client_buffer [simp]: "buffer (accept_client io s) = buffer s"
  by (simp add: accept_client_def split: sum.splits)

lemma accept_client_running [simp]: "running (accept_client io s) = running s"
  by (simp add: accept_client_def split: sum.splits)

lemmas serve_defs = process_server_def serve_client_def handle_data_def parse_and_reply_def








lemma step_handler_exit:
  "running s \<Longrightarrow> client (accept_client io s) = Some c \<Longrightarrow> recv_result io = Inr data \<Longrightarrow>
   data \<noteq> [] \<Longrightarrow> loads env (buffer s @ data) = Inr cmd \<Longrightarrow>
   execute_command (py_repr env) (handlers_impl env) cmd h = (Inl x, h') \<Longrightarrow>
   process_server env io s h = (Inl x, (accept_client io s)\<lparr>buffer := []\<rparr>, h', [])"
  by (simp add: serve_defs)


lemma step_sent:
  "running s \<Longrightarrow> client (accept_client io s) = Some c \<Longrightarrow> recv_result io = Inr data \<Longrightarrow>
   data \<noteq> [] \<Longrightarrow> loads env (buffer s @ data) = Inr cmd \<Longrightarrow>
   execute_command (py_repr env) (handlers_impl env) cmd h = (Inr response, h') \<Longrightarrow>
   dumps env response = Inr bs \<Longrightarrow>
   sendall_result io = None \<Longrightarrow>
   process_server env io s h =
     (Inr (Some (1 / 10)), (accept_client io s)\<lparr>buffer := []\<rparr>, h', [Sendall c bs])"
  by (simp add: serve_defs)

lemma step_incomplete:
  "running s \<Longrightarrow> client (accept_client io s) = Some c \<Longrightarrow> recv_result io = Inr data \<Longrightarrow>
   data \<noteq> [] \<Longrightarrow> loads env (buffer s @ data) = Inl e \<Longrightarrow> exc_class e = JSONDecodeError \<Longrightarrow>
   process_server env io s h =
     (Inr (Some (1 / 10)), (accept_client io s)\<lparr>buffer := buffer s @ data\<rparr>, h, [])"
  by (simp add: serve_defs)

lemma step_decode_error:
  "running s \<Longrightarrow> client (accept_client io s) = Some c \<Longrightarrow> recv_result io = Inr data \<Longrightarrow>
   data \<noteq> [] \<Longrightarrow> loads env (buffer s @ data) = Inl e \<Longrightarrow>
   exc_class e \<notin> {JSONDecodeError, BlockingIOError} \<Longrightarrow>
   process_server env io s h =
     (Inr (Some (1 / 10)), (accept_client io s)\<lparr>client := None, buffer := []\<rparr>, h, [Close c])"
  by (auto simp add: serve_defs)

lemma sent_only_if:
  "Sendall k b \<in> set (snd (snd (snd (process_server env io s h)))) \<Longrightarrow>
   running s \<and> client (accept_client io s) = Some k \<and>
   (\<exists>data cmd response. recv_result io = Inr data \<and> data \<noteq> [] \<and>
      loads env (buffer s @ data) = Inr cmd
      \<and> fst (execute_command (py_repr env) (handlers_impl env) cmd h) = Inr response
      \<and> dumps env response = Inr b
      \<and> sendall_result io = None)"
  by (auto simp add: serve_defs
      split: prod.splits option.splits sum.splits if_splits raised.splits)

lemma accept_client_connected: "client s = Some c \<Longrightarrow> accept_client io s = s"
  by (simp add: accept_client_def)

lemma step_buffer_shift:
  assumes "running s" "client s = Some c" "d \<noteq> []"
  shows "process_server env (io\<lparr>recv_result := Inr (x @ d)\<rparr>) s h
       = process_server env (io\<lparr>recv_result := Inr d\<rparr>) (s\<lparr>buffer := buffer s @ x\<rparr>) h"
  using assms
  by (auto simp add: serve_defs accept_client_def
      split: sum.splits prod.splits option.splits raised.splits)

text \<open>
  Split delivery, where it works: when every read but the last leaves a buffer on which
  the decoder raises \<open>JSONDecodeError\<close>, the reads one after the other end in the state,
  the host and the output of the single read of the whole.
\<close>

lemma split_delivery_same_result:
  assumes "running s" "client s = Some c" "chunks \<noteq> []" "[] \<notin> set chunks"
    and "\<forall>k. 0 < k \<and> k < length chunks \<longrightarrow>
          (\<exists>e. loads env (buffer s @ concat (take k chunks)) = Inl e
                \<and> exc_class e = JSONDecodeError)"
  shows "run env (map (\<lambda>d. io\<lparr>recv_result := Inr d\<rparr>) chunks) s h =
          (case process_server env (io\<lparr>recv_result := Inr (concat chunks)\<rparr>) s h of
             (d, s', h', evs) \<Rightarrow> (s', h', evs))"
  using assms
proof (induction chunks arbitrary: s)
  case Nil
  then show ?case by simp
next
  case (Cons x rest)
  show ?case
  proof (cases "rest = []")
    case True
    then show ?thesis
      by (cases "process_server env (io\<lparr>recv_result := Inr x\<rparr>) s h")
         (auto split: sum.splits option.splits)
  next
    case False
    have x: "x \<noteq> []" using Cons.prems(4) by auto
    from False have "0 < (1::nat) \<and> 1 < length (x # rest)" by (cases rest) auto
    from Cons.prems(5)[rule_format, OF this]
    obtain e where e: "loads env (buffer s @ x) = Inl e" "exc_class e = JSONDecodeError"
      by auto
    let ?s1 = "s\<lparr>buffer := buffer s @ x\<rparr>"
    have first: "process_server env (io\<lparr>recv_result := Inr x\<rparr>) s h
        = (Inr (Some (1 / 10)), ?s1, h, [])"
      using step_incomplete[of s "io\<lparr>recv_result := Inr x\<rparr>" c x env e h]
        Cons.prems(1,2) x e by (simp add: accept_client_connected)
    have pre: "\<forall>k. 0 < k \<and> k < length rest \<longrightarrow>
          (\<exists>e. loads env (buffer ?s1 @ concat (take k rest)) = Inl e
                \<and> exc_class e = JSONDecodeError)"
    proof (intro allI impI)
      fix k assume "0 < k \<and> k < length rest"
      then have "0 < Suc k \<and> Suc k < length (x # rest)" by simp
      from Cons.prems(5)[rule_format, OF this]
      show "\<exists>e. loads env (buffer ?s1 @ concat (take k rest)) = Inl e
                \<and> exc_class e = JSONDecodeError" by simp
    qed
    have ne: "[] \<notin> set rest" using Cons.prems(4) by auto
    have cne: "concat rest \<noteq> []" using False ne by (cases rest) auto
    have ih: "run env (map (\<lambda>d. io\<lparr>recv_result := Inr d\<rparr>) rest) ?s1 h =
          (case process_server env (io\<lparr>recv_result := Inr (concat rest)\<rparr>) ?s1 h of
             (d, s', h', evs) \<Rightarrow> (s', h', evs))"
      using Cons.IH[of ?s1, OF _ _ False ne pre] Cons.prems(1,2) by simp
    have shift: "process_server env (io\<lparr>recv_result := Inr (x @ concat rest)\<rparr>) s h
       = process_server env (io\<lparr>recv_result := Inr (concat rest)\<rparr>) ?s1 h"
      using step_buffer_shift[OF Cons.prems(1,2) cne] .
    show ?thesis
      using first ih shift by (simp split: prod.splits)
  qed
qed

lemmas step_defs = process_server_def accept_client_def serve_client_def handle_data_def
  parse_and_reply_def execute_command_def execute_command_body_def execute_command_internal_def
  handlers_def base_handlers_def needs_view3d_def

lemma valid_request: "utf8_valid (map of_char sample_request)"
  by (simp add: sample_request_def)

lemma valid_whole: "utf8_valid (map of_char (split_head @ split_tail))"
  by (simp add: split_head_def split_tail_def cont_def)

lemma invalid_head: "\<not> utf8_valid (map of_char split_head)"
  by (simp add: split_head_def cont_def)

lemma head_nonempty: "split_head \<noteq> []"
  by (simp add: split_head_def)

lemma request_nonempty: "sample_request \<noteq> []"
  by (simp add: sample_request_def)

lemma loads_request:
  "loads sample_env sample_request
     = Inr (JObj [(''type'', JStr ''get_scene_info''), (''params'', JObj [])])"
  by (simp add: sample_env_def py_loads_def valid_request table_loads_def sample_table_def)

lemma loads_whole:
  "loads sample_env (split_head @ split_tail)
     = Inr (JObj [(''type'', JStr ''get_object_info''),
                  (''params'', JObj [(''name'', JStr (''caf'' @ [CHR 0xC3, CHR 0xA9]))])])"
  using valid_whole
  by (simp add: sample_env_def py_loads_def table_loads_def sample_table_def
      sample_request_def split_head_def split_tail_def)

lemma loads_head: "loads sample_env split_head = Inl (Exn UnicodeDecodeError split_head_error)"
  by (simp add: sample_env_def py_loads_def invalid_head)

lemma sample_execute:
  \<open>execute_command (py_repr sample_env) (handlers_impl sample_env)
      (JObj [(''type'', JStr ''get_scene_info''), (''params'', JObj [])]) sample_host
    = (Inr [(''status'', Str ''success''), (''result'', Obj ''{"name": "Scene"}'')], sample_host)\<close>
  by (simp add: execute_command_def execute_command_body_def execute_command_internal_def
      handlers_def base_handlers_def needs_view3d_def sample_env_def sample_host_def
      success_response_def)

lemma sample_dumps:
  \<open>dumps sample_env [(''status'', Str ''success''), (''result'', Obj ''{"name": "Scene"}'')]
    = Inr ''{"status": "success", "result": {"name": "Scene"}}''\<close>
  by (simp add: sample_env_def simple_dumps_def dquoted_def)

text \<open>
  Claim C1. Delivered in one read, the request of \<open>split_head @ split_tail\<close> is decoded
  and answered. Delivered in two reads that cut the character U+00E9 between its bytes,
  the first read leaves a buffer that is not UTF-8: \<open>decode\<close> raises
  \<open>UnicodeDecodeError\<close>, which \<open>except json.JSONDecodeError\<close> does not catch, so the
  buffer is not kept for the next read; the client is closed and the request is never decoded.
\<close>

theorem split_character_drops_client:
  \<open>run sample_env [reads (split_head @ split_tail)] sample_server sample_host
     = (sample_server, sample_host,
        [Sendall 7 ''{"status": "success", "result": {"name": "Scene"}}''])
   \<and> run sample_env [reads split_head, reads split_tail] sample_server sample_host
     = (sample_server\<lparr>client := None, buffer := []\<rparr>, sample_host, [Close 7])\<close>
proof -
  have a: \<open>process_server sample_env (reads (split_head @ split_tail)) sample_server sample_host
     = (Inr (Some (1/10)), sample_server, sample_host,
        [Sendall 7 ''{"status": "success", "result": {"name": "Scene"}}''])\<close>
    using loads_whole head_nonempty
    by (simp add: step_defs reads_def sample_server_def sample_host_def)
       (simp add: sample_env_def simple_dumps_def success_response_def dquoted_def)
  have b: "process_server sample_env (reads split_head) sample_server sample_host
     = (Inr (Some (1/10)), sample_server\<lparr>client := None, buffer := []\<rparr>, sample_host, [Close 7])"
    using loads_head head_nonempty
    by (simp add: step_defs reads_def sample_server_def sample_host_def)
  have c: "process_server sample_env (reads split_tail)
        (sample_server\<lparr>client := None, buffer := []\<rparr>) sample_host
     = (Inr (Some (1/10)), sample_server\<lparr>client := None, buffer := []\<rparr>, sample_host, [])"
    by (simp add: step_defs reads_def sample_server_def sample_host_def)
  show ?thesis
    by (simp add: a b c)
qed

text \<open>
  Claim C2, as amended. A step writes the response \<open>b\<close> to the client \<open>k\<close> exactly when
  the server is running with client \<open>k\<close>, the read returned data, the buffer with the data
  appended parsed as JSON, the command was answered with a response, the response
  serialised to \<open>b\<close>, and \<open>sendall\<close> raised nothing. In particular a step whose \<open>recv\<close>
  raises writes no response.
\<close>

theorem response_written_iff:
  "(Sendall k b \<in> set (snd (snd (snd (process_server env io s h))))
     \<longleftrightarrow> running s \<and> client (accept_client io s) = Some k \<and>
        (\<exists>data cmd response. recv_result io = Inr data \<and> data \<noteq> [] \<and>
           loads env (buffer s @ data) = Inr cmd \<and>
           fst (execute_command (py_repr env) (handlers_impl env) cmd h) = Inr response \<and>
           dumps env response = Inr b \<and>
           sendall_result io = None))
   \<and> (recv_result io = Inl e \<longrightarrow>
        Sendall k b \<notin> set (snd (snd (snd (process_server env io s h)))))"
proof -
  have "Sendall k b \<in> set (snd (snd (snd (process_server env io s h))))"
    if p: "running s" "client (accept_client io s) = Some k" "recv_result io = Inr data"
      "data \<noteq> []" "loads env (buffer s @ data) = Inr cmd"
      "fst (execute_command (py_repr env) (handlers_impl env) cmd h) = Inr response"
      "dumps env response = Inr b"
      "sendall_result io = None" for data cmd response
  proof -
    obtain h' where x: "execute_command (py_repr env) (handlers_impl env) cmd h = (Inr response, h')"
      using p(6) by (cases "execute_command (py_repr env) (handlers_impl env) cmd h") auto
    from step_sent[OF p(1-5) x p(7,8)] show ?thesis by simp
  qed
  moreover have "recv_result io = Inl e \<Longrightarrow>
        Sendall k b \<notin> set (snd (snd (snd (process_server env io s h))))"
    using sent_only_if[of k b env io s h] by auto
  ultimately show ?thesis
    using sent_only_if[of k b env io s h] by blast
qed

text \<open>
  Claim C2, as stated, fails: the buffer parses as a complete request, \<open>sendall\<close> raises
  \<open>BrokenPipeError\<close>, and the step closes the client without a response written.
\<close>

theorem parsed_request_without_response:
  "loads sample_env (buffer sample_server @ sample_request)
     = Inr (JObj [(''type'', JStr ''get_scene_info''), (''params'', JObj [])])
   \<and> process_server sample_env (send_fails sample_request) sample_server sample_host
     = (Inr (Some (1 / 10)), sample_server\<lparr>client := None, buffer := []\<rparr>, sample_host,
        [Close 7])"
proof -
  have l: "loads sample_env (buffer sample_server @ sample_request)
     = Inr (JObj [(''type'', JStr ''get_scene_info''), (''params'', JObj [])])"
    using loads_request by (simp add: sample_server_def)
  have "process_server sample_env (send_fails sample_request) sample_server sample_host
     = (Inr (Some (1 / 10)), sample_server\<lparr>client := None, buffer := []\<rparr>, sample_host,
        [Close 7])"
    using l request_nonempty sample_execute sample_dumps
    by (simp add: serve_defs accept_client_def send_fails_def sample_server_def)
  with l show ?thesis by simp
qed

theorem response_written_iff_witness:
  \<open>Sendall 7 ''{"status": "success", "result": {"name": "Scene"}}''
      \<in> set (snd (snd (snd (process_server sample_env (reads sample_request) sample_server
            sample_host))))
   \<and> running sample_server
   \<and> client (accept_client (reads sample_request) sample_server) = Some 7
   \<and> recv_result (reads sample_request) = Inr sample_request \<and> sample_request \<noteq> []
   \<and> loads sample_env (buffer sample_server @ sample_request)
        = Inr (JObj [(''type'', JStr ''get_scene_info''), (''params'', JObj [])])
   \<and> fst (execute_command (py_repr sample_env) (handlers_impl sample_env)
        (JObj [(''type'', JStr ''get_scene_info''), (''params'', JObj [])]) sample_host)
        = Inr [(''status'', Str ''success''), (''result'', Obj ''{"name": "Scene"}'')]
   \<and> dumps sample_env [(''status'', Str ''success''), (''result'', Obj ''{"name": "Scene"}'')]
        = Inr ''{"status": "success", "result": {"name": "Scene"}}''
   \<and> sendall_result (reads sample_request) = None\<close>
proof -
  let ?cmd = "JObj [(''type'', JStr ''get_scene_info''), (''params'', JObj [])]"
  have r: "running sample_server" by (simp add: sample_server_def)
  have c: "client (accept_client (reads sample_request) sample_server) = Some 7"
    by (simp add: accept_client_def sample_server_def)
  have d: "recv_result (reads sample_request) = Inr sample_request" by (simp add: reads_def)
  have l: "loads sample_env (buffer sample_server @ sample_request) = Inr ?cmd"
    using loads_request by (simp add: sample_server_def)
  have e: \<open>fst (execute_command (py_repr sample_env) (handlers_impl sample_env) ?cmd sample_host)
      = Inr [(''status'', Str ''success''), (''result'', Obj ''{"name": "Scene"}'')]\<close>
    by (simp add: sample_execute)
  have n: "sendall_result (reads sample_request) = None" by (simp add: reads_def)
  have \<open>\<exists>data cmd response. recv_result (reads sample_request) = Inr data \<and> data \<noteq> [] \<and>
           loads sample_env (buffer sample_server @ data) = Inr cmd \<and>
           fst (execute_command (py_repr sample_env) (handlers_impl sample_env) cmd sample_host)
             = Inr response \<and>
           dumps sample_env response
             = Inr ''{"status": "success", "result": {"name": "Scene"}}'' \<and>
           sendall_result (reads sample_request) = None\<close>
    using d request_nonempty l e sample_dumps n by blast
  with r c response_written_iff[of 7 _ sample_env "reads sample_request" sample_server sample_host]
  have \<open>Sendall 7 ''{"status": "success", "result": {"name": "Scene"}}''
      \<in> set (snd (snd (snd (process_server sample_env (reads sample_request) sample_server
            sample_host))))\<close>
    by blast
  then show ?thesis using r c d request_nonempty l e sample_dumps n by simp
qed





section \<open>Properties of the connection manager\<close>

lemma loop_body_incomplete:
  "chunk \<noteq> [] \<Longrightarrow> lds (concat (chunks @ [chunk])) = Inl e \<Longrightarrow> exc_class e = JSONDecodeError \<Longrightarrow>
   loop_body lds chunks (Inr chunk) = (None, chunks @ [chunk])"
  by (simp add: loop_body_def)

lemma recv_loop_data:
  assumes "[] \<notin> set pre"
    and "\<forall>k. 0 < k \<and> k \<le> length pre \<longrightarrow>
          (\<exists>e. lds (concat (chunks @ take k pre)) = Inl e \<and> exc_class e = JSONDecodeError)"
  shows "recv_loop lds chunks (map Inr pre @ rest) =
          (case recv_loop lds (chunks @ pre) rest of (x, cs, n) \<Rightarrow> (x, cs, n + length pre))"
  using assms
proof (induction pre arbitrary: chunks)
  case Nil
  then show ?case by (simp split: prod.splits)
next
  case (Cons p pre)
  from Cons.prems(2)[rule_format, of 1]
  obtain e where e: "lds (concat (chunks @ [p])) = Inl e" "exc_class e = JSONDecodeError"
    by auto
  have p: "p \<noteq> []" using Cons.prems(1) by auto
  have rest: "\<forall>k. 0 < k \<and> k \<le> length pre \<longrightarrow>
          (\<exists>e. lds (concat ((chunks @ [p]) @ take k pre)) = Inl e \<and> exc_class e = JSONDecodeError)"
  proof (intro allI impI)
    fix k assume "0 < k \<and> k \<le> length pre"
    then have "0 < Suc k \<and> Suc k \<le> length (p # pre)" by simp
    from Cons.prems(2)[rule_format, OF this] show
      "\<exists>e. lds (concat ((chunks @ [p]) @ take k pre)) = Inl e \<and> exc_class e = JSONDecodeError"
      by simp
  qed
  have ne: "[] \<notin> set pre" using Cons.prems(1) by auto
  show ?case
    using Cons.IH[OF ne rest] loop_body_incomplete[of p lds chunks e] p e
    by (simp split: prod.splits)
qed

lemma recv_loop_stop:
  "chunks \<noteq> [] \<Longrightarrow> r = Inr [] \<or> (\<exists>e. r = Inl e \<and> exc_class e = SocketTimeout) \<Longrightarrow>
   recv_loop lds chunks (r # rs) = (Break, chunks, 1)"
  by (auto simp: loop_body_def)

lemma receive_closed_at_once:
  "receive_full_response lds (Inr [] # rs) =
    (Some (Inl (Exn PlainException ''Connection closed before receiving any data'')), 1)"
  by (simp add: receive_full_response_def loop_body_def)

lemma receive_stop_after_data:
  assumes "pre \<noteq> []" "[] \<notin> set pre"
    and "\<forall>k. 0 < k \<and> k \<le> length pre \<longrightarrow>
          (\<exists>e. lds (concat (take k pre)) = Inl e \<and> exc_class e = JSONDecodeError)"
    and "r = Inr [] \<or> (\<exists>e. r = Inl e \<and> exc_class e = SocketTimeout)"
  shows "receive_full_response lds (map Inr pre @ r # rs) = (Some (finalize lds pre), Suc (length pre))"
  using recv_loop_data[of pre lds "[]" "r # rs"] recv_loop_stop[OF assms(1) assms(4), of lds rs] assms(2,3)
  by (simp add: receive_full_response_def)

lemma finalize_cases:
  "chunks \<noteq> [] \<Longrightarrow>
   finalize lds chunks =
     (case lds (concat chunks) of
        Inr v \<Rightarrow> Inr (concat chunks)
      | Inl e \<Rightarrow> if exc_class e = JSONDecodeError
                 then Inl (Exn PlainException ''Incomplete JSON response received'') else Inl e)"
  by (simp add: finalize_def)

text \<open>
  Claim C6. In \<open>receive_full_response\<close>: an empty read with nothing accumulated raises
  "Connection closed before receiving any data". An empty read or a timeout after the chunks
  \<open>pre\<close> have been accumulated (each was followed by a failed parse, so the loop went on)
  stops the loop and gives the result of the final attempt on \<open>pre\<close>, which here is
  "Incomplete JSON response received". The final attempt on any accumulated chunks returns
  the data when they parse, and raises "Incomplete JSON response received" when the parse
  fails with \<open>JSONDecodeError\<close>.
\<close>

theorem receive_closed_or_timed_out:
  "receive_full_response lds (Inr [] # rs) =
      (Some (Inl (Exn PlainException ''Connection closed before receiving any data'')), 1)
   \<and> (pre \<noteq> [] \<and> [] \<notin> set pre \<and>
       (\<forall>k. 0 < k \<and> k \<le> length pre \<longrightarrow>
          (\<exists>e. lds (concat (take k pre)) = Inl e \<and> exc_class e = JSONDecodeError)) \<and>
       (r = Inr [] \<or> (\<exists>e. r = Inl e \<and> exc_class e = SocketTimeout)) \<longrightarrow>
         receive_full_response lds (map Inr pre @ r # rs)
           = (Some (finalize lds pre), Suc (length pre))
         \<and> finalize lds pre = Inl (Exn PlainException ''Incomplete JSON response received''))
   \<and> (chunks \<noteq> [] \<longrightarrow>
        (\<forall>v. lds (concat chunks) = Inr v \<longrightarrow> finalize lds chunks = Inr (concat chunks)) \<and>
        (\<forall>e. lds (concat chunks) = Inl e \<and> exc_class e = JSONDecodeError \<longrightarrow>
           finalize lds chunks = Inl (Exn PlainException ''Incomplete JSON response received'')))"
proof -
  have "finalize lds pre = Inl (Exn PlainException ''Incomplete JSON response received'')"
    if "pre \<noteq> []" and
      p: "\<forall>k. 0 < k \<and> k \<le> length pre \<longrightarrow>
          (\<exists>e. lds (concat (take k pre)) = Inl e \<and> exc_class e = JSONDecodeError)"
  proof -
    from that(1) have "0 < length pre \<and> length pre \<le> length pre" by simp
    from p[rule_format, OF this] show ?thesis using that(1) by (auto simp: finalize_def)
  qed
  then show ?thesis
    using receive_closed_at_once[of lds rs] receive_stop_after_data[of pre lds r rs]
      finalize_cases[of chunks lds]
    by auto
qed

lemma reply_split: "reply_head @ reply_tail = sample_reply"
  by (simp add: reply_head_def reply_tail_def sample_reply_def)

lemma loads_reply:
  "table_loads reply_table sample_reply
     = Inr (JObj [(''status'', JStr ''success''), (''result'', JObj [(''name'', JStr ''Scene'')])])"
  by (simp add: table_loads_def reply_table_def)

lemma loads_reply_head:
  "table_loads reply_table reply_head = Inl (Exn JSONDecodeError ''Expecting value'')"
  by (simp add: table_loads_def reply_table_def reply_head_def sample_reply_def error_reply_def)

lemma reply_head_nonempty: "reply_head \<noteq> []"
  by (simp add: reply_head_def)

lemma reply_tail_nonempty: "reply_tail \<noteq> []"
  by (simp add: reply_tail_def)

theorem receive_closed_or_timed_out_witness:
  "receive_full_response (table_loads reply_table) [Inr []]
     = (Some (Inl (Exn PlainException ''Connection closed before receiving any data'')), 1)
   \<and> receive_full_response (table_loads reply_table) [Inr reply_head, Inr []]
     = (Some (Inl (Exn PlainException ''Incomplete JSON response received'')), 2)
   \<and> receive_full_response (table_loads reply_table)
        [Inr reply_head, Inl (Exn SocketTimeout ''timed out'')]
     = (Some (Inl (Exn PlainException ''Incomplete JSON response received'')), 2)
   \<and> finalize (table_loads reply_table) [sample_reply] = Inr sample_reply"
proof -
  let ?l = "table_loads reply_table"
  have p: "[reply_head] \<noteq> [] \<and> [] \<notin> set [reply_head] \<and>
       (\<forall>k. 0 < k \<and> k \<le> length [reply_head] \<longrightarrow>
          (\<exists>e. ?l (concat (take k [reply_head])) = Inl e \<and> exc_class e = JSONDecodeError))"
    using loads_reply_head reply_head_nonempty by (auto simp: take_Suc_conv_app_nth)
  have a: "receive_full_response ?l [Inr []]
     = (Some (Inl (Exn PlainException ''Connection closed before receiving any data'')), 1)"
    using receive_closed_or_timed_out[of ?l "[]"] by simp
  have b: "receive_full_response ?l [Inr reply_head, Inr []]
     = (Some (Inl (Exn PlainException ''Incomplete JSON response received'')), 2)"
    using receive_closed_or_timed_out[of ?l "[]" "[reply_head]" "Inr []"] p by simp
  have c: "receive_full_response ?l [Inr reply_head, Inl (Exn SocketTimeout ''timed out'')]
     = (Some (Inl (Exn PlainException ''Incomplete JSON response received'')), 2)"
    using receive_closed_or_timed_out[of ?l "[]" "[reply_head]" "Inl (Exn SocketTimeout ''timed out'')"] p
    by simp
  have d: "finalize ?l [sample_reply] = Inr sample_reply"
    using receive_closed_or_timed_out[of ?l "[]" "[]" "Inr []" "[sample_reply]"] loads_reply
    by simp
  from a b c d show ?thesis by simp
qed

lemma recv_loop_count: "snd (snd (recv_loop lds chunks rs)) \<le> length rs"
proof (induction rs arbitrary: chunks)
  case Nil
  then show ?case by simp
next
  case (Cons r rs)
  show ?case
  proof (cases "loop_body lds chunks r")
    case (Pair x chunks')
    show ?thesis
    proof (cases x)
      case None
      with Pair Cons.IH[of chunks'] show ?thesis
        by (cases "recv_loop lds chunks' rs") auto
    next
      case (Some y)
      with Pair show ?thesis by (cases y) auto
    qed
  qed
qed

lemma receive_count: "snd (receive_full_response lds rs) \<le> length rs"
  using recv_loop_count[of lds "[]" rs]
  by (auto simp: receive_full_response_def split: prod.splits loop_exit.splits)

lemma sum_take_bound:
  "list_all (\<lambda>w. w \<le> (15::real)) ws \<Longrightarrow> n \<le> length ws \<Longrightarrow> sum_list (take n ws) \<le> 15 * real n"
proof (induction ws arbitrary: n)
  case Nil
  then show ?case by simp
next
  case (Cons w ws)
  show ?case
  proof (cases n)
    case 0
    then show ?thesis by simp
  next
    case (Suc m)
    with Cons.prems have "sum_list (take m ws) \<le> 15 * real m" "w \<le> 15"
      using Cons.IH[of m] by auto
    with Suc show ?thesis by (simp add: algebra_simps)
  qed
qed

text \<open>
  Claim C7, as amended. The timeout of 15 bounds each \<open>recv\<close> call, not the loop: the
  time spent receiving is at most 15 for each call made, and the loop makes at most as many
  calls as there are reads.
\<close>

theorem time_receiving_per_read:
  assumes "list_all timed_ok evs"
  shows "time_receiving lds evs \<le> 15 * real (snd (receive_full_response lds (map snd evs)))
         \<and> snd (receive_full_response lds (map snd evs)) \<le> length evs"
proof -
  have "list_all (\<lambda>w. w \<le> (15::real)) (map fst evs)"
    using assms by (induction evs) (auto simp: timed_ok_def)
  moreover have "snd (receive_full_response lds (map snd evs)) \<le> length (map fst evs)"
    using receive_count[of lds "map snd evs"] by simp
  ultimately show ?thesis
    using sum_take_bound[of "map fst evs" "snd (receive_full_response lds (map snd evs))"]
    by (simp add: time_receiving_def)
qed

lemma slow_receive:
  "receive_full_response (table_loads reply_table) (map snd slow_reads) = (Some (Inr sample_reply), 2)"
  using loads_reply_head loads_reply reply_head_nonempty reply_tail_nonempty reply_split
  by (simp add: slow_reads_def receive_full_response_def loop_body_def)

text \<open>
  Claim C7, as stated, fails: two reads of 10 time units each, both within the timeout,
  deliver one response after 20 time units.
\<close>

theorem two_reads_exceed_timeout:
  "list_all timed_ok slow_reads
   \<and> receive_full_response (table_loads reply_table) (map snd slow_reads)
       = (Some (Inr sample_reply), 2)
   \<and> time_receiving (table_loads reply_table) slow_reads = 20
   \<and> \<not> time_receiving (table_loads reply_table) slow_reads \<le> 15"
proof -
  have "list_all timed_ok slow_reads" by (simp add: slow_reads_def timed_ok_def)
  moreover have "time_receiving (table_loads reply_table) slow_reads = 20"
    by (simp add: time_receiving_def slow_receive) (simp add: slow_reads_def)
  ultimately show ?thesis using slow_receive by simp
qed

theorem time_receiving_per_read_witness:
  "list_all timed_ok slow_reads
   \<and> time_receiving (table_loads reply_table) slow_reads
       \<le> 15 * real (snd (receive_full_response (table_loads reply_table) (map snd slow_reads)))
   \<and> snd (receive_full_response (table_loads reply_table) (map snd slow_reads)) \<le> length slow_reads"
proof -
  have t: "list_all timed_ok slow_reads" by (simp add: slow_reads_def timed_ok_def)
  from time_receiving_per_read[OF t, of "table_loads reply_table"] t show ?thesis by simp
qed

lemma send_command_connect_fails:
  "sock c = None \<Longrightarrow> connect_result io = Inl e \<Longrightarrow>
   send_command cdumps lds repr io c t p =
     (Some (Inl (Exn ConnectionError ''Not connected to Blender'')), c, [ConnectCall])"
  by (simp add: send_command_def connect_def)

lemma send_command_raise_invalidates:
  assumes "sock c = Some k"
    and "send_command_body cdumps lds repr io (command_dict t p) = (Some (Inl e), calls)"
    and "exc_class e \<noteq> JSONDecodeError"
  shows "\<exists>m. send_command cdumps lds repr io c t p =
           (Some (Inl (Exn PlainException m)), c\<lparr>sock := None\<rparr>, calls)"
  using assms by (simp add: send_command_def)

lemma body_send_fails:
  "cdumps command = Inr payload \<Longrightarrow> send_result io = Some e \<Longrightarrow>
   send_command_body cdumps lds repr io command = (Some (Inl e), [SendallCall payload])"
  by (simp add: send_command_body_def)

lemma body_receive_raises:
  "cdumps command = Inr payload \<Longrightarrow> send_result io = None \<Longrightarrow>
   receive_full_response lds (map snd (recvs io)) = (Some (Inl e), n) \<Longrightarrow>
   send_command_body cdumps lds repr io command
     = (Some (Inl e), SendallCall payload # replicate n RecvCall)"
  by (simp add: send_command_body_def)

lemma receive_recv_raises:
  assumes "[] \<notin> set pre"
    and "\<forall>k. 0 < k \<and> k \<le> length pre \<longrightarrow>
          (\<exists>e. lds (concat (take k pre)) = Inl e \<and> exc_class e = JSONDecodeError)"
    and "exc_class e \<in> {BlockingIOError, SocketTimeout, ConnectionError, OtherError}"
  shows "\<exists>e'. receive_full_response lds (map Inr pre @ Inl e # rest)
            = (Some (Inl e'), Suc (length pre)) \<and> exc_class e' \<noteq> JSONDecodeError"
proof (cases "exc_class e = SocketTimeout")
  case True
  have l: "recv_loop lds pre (Inl e # rest) = (Break, pre, 1)"
    using True by (simp add: loop_body_def)
  have r: "receive_full_response lds (map Inr pre @ Inl e # rest)
          = (Some (finalize lds pre), Suc (length pre))"
    using recv_loop_data[of pre lds "[]" "Inl e # rest"] assms(1,2) l
    by (simp add: receive_full_response_def)
  show ?thesis
  proof (cases "pre = []")
    case True
    with r show ?thesis by (simp add: finalize_def)
  next
    case False
    then have "0 < length pre \<and> length pre \<le> length pre" by simp
    from assms(2)[rule_format, OF this] False r show ?thesis by (auto simp: finalize_def)
  qed
next
  case False
  have l: "recv_loop lds pre (Inl e # rest) = (Raise e, pre, 1)"
    using False by (simp add: loop_body_def)
  have "receive_full_response lds (map Inr pre @ Inl e # rest) = (Some (Inl e), Suc (length pre))"
    using recv_loop_data[of pre lds "[]" "Inl e # rest"] assms(1,2) l False
    by (simp add: receive_full_response_def)
  with assms(3) show ?thesis by auto
qed

lemma send_command_reconnects:
  "sock c = None \<Longrightarrow> connect_result io = Inr k \<Longrightarrow>
   send_command cdumps lds repr io c t p =
     (case send_command cdumps lds repr io (c\<lparr>sock := Some k\<rparr>) t p of
        (r, c', calls) \<Rightarrow> (r, c', ConnectCall # calls))"
  by (simp add: send_command_def connect_def split: prod.splits option.splits sum.splits)

lemma body_one_send:
  "length (filter is_sendall (snd (send_command_body cdumps lds repr io command))) \<le> 1
   \<and> ConnectCall \<notin> set (snd (send_command_body cdumps lds repr io command))"
  by (auto simp: send_command_body_def is_sendall_def split: sum.splits option.splits prod.splits)

lemma send_command_no_retry:
  "length (filter is_sendall (snd (snd (send_command cdumps lds repr io c t p)))) \<le> 1
   \<and> length (filter (\<lambda>x. x = ConnectCall) (snd (snd (send_command cdumps lds repr io c t p)))) \<le> 1"
proof -
  obtain r calls where b: "send_command_body cdumps lds repr io (command_dict t p) = (r, calls)"
    by (cases "send_command_body cdumps lds repr io (command_dict t p)")
  from body_one_send[of cdumps lds repr io "command_dict t p"] b
  have c: "length (filter is_sendall calls) \<le> 1" "ConnectCall \<notin> set calls" by simp_all
  then have f: "filter (\<lambda>x. x = ConnectCall) calls = []" by (auto simp: filter_empty_conv)
  show ?thesis
    using b c(1) f
    by (auto simp: send_command_def connect_def is_sendall_def
        split: option.splits sum.splits)
qed

lemma loads_error_reply:
  "table_loads reply_table error_reply
     = Inr (JObj [(''status'', JStr ''error''),
                  (''message'', JStr ''Unknown command type: nonexistent'')])"
  by (simp add: table_loads_def reply_table_def sample_reply_def error_reply_def)

lemma error_reply_nonempty: "error_reply \<noteq> []"
  by (simp add: error_reply_def)

lemma sample_reply_nonempty: "sample_reply \<noteq> []"
  by (simp add: sample_reply_def)

text \<open>
  Claim C8. Without a socket and with a failing connect, \<open>send_command\<close> raises
  \<open>ConnectionError\<close> "Not connected to Blender" after the connect attempt alone: nothing
  is sent. With a socket, an error of \<open>sendall\<close>, and an error of a \<open>recv\<close> (after any
  number of chunks that did not yet parse), make the call raise, with the socket set to
  \<open>None\<close>. A call without a socket first connects and then goes on as a call with the new
  socket does. No call makes more than one connect and one \<open>sendall\<close>.
\<close>

theorem send_command_faults:
  "(sock c = None \<and> connect_result io = Inl e0 \<longrightarrow>
      send_command cdumps lds repr io c t p =
        (Some (Inl (Exn ConnectionError ''Not connected to Blender'')), c, [ConnectCall]))
   \<and> (sock c = Some k \<and> cdumps (command_dict t p) = Inr payload \<and> send_result io = Some e \<and>
       exc_class e \<in> {BlockingIOError, SocketTimeout, ConnectionError, OtherError} \<longrightarrow>
      (\<exists>m. send_command cdumps lds repr io c t p =
        (Some (Inl (Exn PlainException m)), c\<lparr>sock := None\<rparr>, [SendallCall payload])))
   \<and> (sock c = Some k \<and> cdumps (command_dict t p) = Inr payload \<and> send_result io = None \<and>
       map snd (recvs io) = map Inr pre @ Inl e # rest \<and> [] \<notin> set pre \<and>
       (\<forall>j. 0 < j \<and> j \<le> length pre \<longrightarrow>
          (\<exists>x. lds (concat (take j pre)) = Inl x \<and> exc_class x = JSONDecodeError)) \<and>
       exc_class e \<in> {BlockingIOError, SocketTimeout, ConnectionError, OtherError} \<longrightarrow>
      (\<exists>m. send_command cdumps lds repr io c t p =
        (Some (Inl (Exn PlainException m)), c\<lparr>sock := None\<rparr>,
         SendallCall payload # replicate (Suc (length pre)) RecvCall)))
   \<and> (sock c = None \<and> connect_result io = Inr k \<longrightarrow>
      send_command cdumps lds repr io c t p =
        (case send_command cdumps lds repr io (c\<lparr>sock := Some k\<rparr>) t p of
           (r, c', calls) \<Rightarrow> (r, c', ConnectCall # calls)))
   \<and> length (filter is_sendall (snd (snd (send_command cdumps lds repr io c t p)))) \<le> 1
   \<and> length (filter (\<lambda>x. x = ConnectCall)
        (snd (snd (send_command cdumps lds repr io c t p)))) \<le> 1"
proof -
  have 1: "sock c = None \<and> connect_result io = Inl e0 \<longrightarrow>
      send_command cdumps lds repr io c t p =
        (Some (Inl (Exn ConnectionError ''Not connected to Blender'')), c, [ConnectCall])"
    using send_command_connect_fails[of c io e0 cdumps lds repr t p] by simp
  have 2: "\<exists>m. send_command cdumps lds repr io c t p =
        (Some (Inl (Exn PlainException m)), c\<lparr>sock := None\<rparr>, [SendallCall payload])"
    if "sock c = Some k" "cdumps (command_dict t p) = Inr payload" "send_result io = Some e"
      "exc_class e \<in> {BlockingIOError, SocketTimeout, ConnectionError, OtherError}"
  proof -
    have ne: "exc_class e \<noteq> JSONDecodeError" using that(4) by auto
    have b: "send_command_body cdumps lds repr io (command_dict t p)
        = (Some (Inl e), [SendallCall payload])"
      using that(2,3) by (rule body_send_fails)
    from send_command_raise_invalidates[OF that(1) b ne]
    show ?thesis .
  qed
  have 3: "\<exists>m. send_command cdumps lds repr io c t p =
        (Some (Inl (Exn PlainException m)), c\<lparr>sock := None\<rparr>,
         SendallCall payload # replicate (Suc (length pre)) RecvCall)"
    if "sock c = Some k" "cdumps (command_dict t p) = Inr payload" "send_result io = None"
      "map snd (recvs io) = map Inr pre @ Inl e # rest" "[] \<notin> set pre"
      "\<forall>j. 0 < j \<and> j \<le> length pre \<longrightarrow>
          (\<exists>x. lds (concat (take j pre)) = Inl x \<and> exc_class x = JSONDecodeError)"
      "exc_class e \<in> {BlockingIOError, SocketTimeout, ConnectionError, OtherError}"
  proof -
    from receive_recv_raises[OF that(5,6,7), of rest] obtain e' where
      e': "receive_full_response lds (map Inr pre @ Inl e # rest) = (Some (Inl e'), Suc (length pre))"
      "exc_class e' \<noteq> JSONDecodeError" by blast
    from e'(1) that(4) have
      "receive_full_response lds (map snd (recvs io)) = (Some (Inl e'), Suc (length pre))"
      by simp
    with that(2,3) have b: "send_command_body cdumps lds repr io (command_dict t p)
        = (Some (Inl e'), SendallCall payload # replicate (Suc (length pre)) RecvCall)"
      by (rule body_receive_raises)
    from send_command_raise_invalidates[OF that(1) b e'(2)]
    show ?thesis .
  qed
  have 4: "sock c = None \<and> connect_result io = Inr k \<longrightarrow>
      send_command cdumps lds repr io c t p =
        (case send_command cdumps lds repr io (c\<lparr>sock := Some k\<rparr>) t p of
           (r, c', calls) \<Rightarrow> (r, c', ConnectCall # calls))"
    using send_command_reconnects[of c io k cdumps lds repr t p] by simp
  from 1 2 3 4 send_command_no_retry[of cdumps lds repr io c t p] show ?thesis by blast
qed

theorem send_command_faults_witness:
  "send_command (\<lambda>v. Inr sample_request) (table_loads reply_table) (\<lambda>v. [])
      io_refused disconnected ''get_scene_info'' JNull
     = (Some (Inl (Exn ConnectionError ''Not connected to Blender'')), disconnected, [ConnectCall])
   \<and> send_command (\<lambda>v. Inr sample_request) (table_loads reply_table) (\<lambda>v. [])
      io_broken connected ''get_scene_info'' JNull
     = (Some (Inl (Exn PlainException ''Connection to Blender lost: [Errno 32] Broken pipe'')),
        connected\<lparr>sock := None\<rparr>, [SendallCall sample_request])
   \<and> send_command (\<lambda>v. Inr sample_request) (table_loads reply_table) (\<lambda>v. [])
      io_reset connected ''get_scene_info'' JNull
     = (Some (Inl (Exn PlainException
          ''Connection to Blender lost: [Errno 104] Connection reset by peer'')),
        connected\<lparr>sock := None\<rparr>, [SendallCall sample_request, RecvCall, RecvCall])
   \<and> send_command (\<lambda>v. Inr sample_request) (table_loads reply_table) (\<lambda>v. [])
      io_ok (connected\<lparr>sock := None\<rparr>) ''get_scene_info'' JNull
     = (Some (Inr (JObj [(''name'', JStr ''Scene'')])), connected\<lparr>sock := Some 6\<rparr>,
        [ConnectCall, SendallCall sample_request, RecvCall])"
proof -
  let ?cd = "\<lambda>v::json. Inr sample_request :: exn + bytes"
  let ?l = "table_loads reply_table"
  let ?r = "\<lambda>v::json. [] :: string"
  have 1: "send_command ?cd ?l ?r io_refused disconnected ''get_scene_info'' JNull
     = (Some (Inl (Exn ConnectionError ''Not connected to Blender'')), disconnected, [ConnectCall])"
    using send_command_faults[of disconnected io_refused
        "Exn ConnectionError ''[Errno 111] Connection refused''" ?cd ?l ?r "''get_scene_info''" JNull]
    by (simp add: disconnected_def io_refused_def)
  have 2: "send_command ?cd ?l ?r io_broken connected ''get_scene_info'' JNull
     = (Some (Inl (Exn PlainException ''Connection to Blender lost: [Errno 32] Broken pipe'')),
        connected\<lparr>sock := None\<rparr>, [SendallCall sample_request])"
    by (simp add: send_command_def send_command_body_def connected_def io_broken_def)
  have 3: "send_command ?cd ?l ?r io_reset connected ''get_scene_info'' JNull
     = (Some (Inl (Exn PlainException
          ''Connection to Blender lost: [Errno 104] Connection reset by peer'')),
        connected\<lparr>sock := None\<rparr>, [SendallCall sample_request, RecvCall, RecvCall])"
    using loads_reply_head reply_head_nonempty
    by (simp add: send_command_def send_command_body_def connected_def io_reset_def
        receive_full_response_def loop_body_def)
  have o: "send_command ?cd ?l ?r io_ok (connected\<lparr>sock := None\<rparr>\<lparr>sock := Some 6\<rparr>)
      ''get_scene_info'' JNull
     = (Some (Inr (JObj [(''name'', JStr ''Scene'')])), connected\<lparr>sock := Some 6\<rparr>,
        [SendallCall sample_request, RecvCall])"
    using loads_reply sample_reply_nonempty
    by (simp add: send_command_def send_command_body_def connected_def io_ok_def
        receive_full_response_def loop_body_def interpret_response_def)
  have 4: "send_command ?cd ?l ?r io_ok (connected\<lparr>sock := None\<rparr>) ''get_scene_info'' JNull
     = (Some (Inr (JObj [(''name'', JStr ''Scene'')])), connected\<lparr>sock := Some 6\<rparr>,
        [ConnectCall, SendallCall sample_request, RecvCall])"
    using send_command_faults[of "connected\<lparr>sock := None\<rparr>" io_ok _ ?cd ?l ?r
        "''get_scene_info''" JNull 6] o
    by (simp add: io_ok_def)
  from 1 2 3 4 show ?thesis by simp
qed

text \<open>
  Claim C9. When the response received has status \<open>error\<close> and the message \<open>m\<close>, the
  exception raised for it inside the \<open>try\<close> is caught by \<open>except Exception\<close>: the socket
  is set to \<open>None\<close> and the caller gets "Communication error with Blender: " followed by
  \<open>m\<close>.
\<close>

theorem error_status_invalidates:
  assumes "sock c = Some k"
    and "cdumps (command_dict t p) = Inr payload"
    and "send_result io = None"
    and "receive_full_response lds (map snd (recvs io)) = (Some (Inr data), n)"
    and "lds data = Inr (JObj kvs)"
    and "map_of kvs ''status'' = Some (JStr ''error'')"
    and "map_of kvs ''message'' = Some (JStr m)"
  shows "send_command cdumps lds repr io c t p =
          (Some (Inl (Exn PlainException (''Communication error with Blender: '' @ m))),
           c\<lparr>sock := None\<rparr>, SendallCall payload # replicate n RecvCall)"
  using assms
  by (simp add: send_command_def send_command_body_def interpret_response_def py_str_def)

theorem error_status_invalidates_witness:
  "sock connected = Some 5
   \<and> send_result io_error_reply = None
   \<and> receive_full_response (table_loads reply_table) (map snd (recvs io_error_reply))
       = (Some (Inr error_reply), 1)
   \<and> table_loads reply_table error_reply
       = Inr (JObj [(''status'', JStr ''error''),
                    (''message'', JStr ''Unknown command type: nonexistent'')])
   \<and> send_command (\<lambda>v. Inr sample_request) (table_loads reply_table) (\<lambda>v. [])
        io_error_reply connected ''nonexistent'' JNull
       = (Some (Inl (Exn PlainException
            ''Communication error with Blender: Unknown command type: nonexistent'')),
          connected\<lparr>sock := None\<rparr>, [SendallCall sample_request, RecvCall])"
proof -
  have a: "sock connected = Some 5" by (simp add: connected_def)
  have b: "send_result io_error_reply = None" by (simp add: io_error_reply_def)
  have c: "receive_full_response (table_loads reply_table) (map snd (recvs io_error_reply))
       = (Some (Inr error_reply), 1)"
    using loads_error_reply error_reply_nonempty
    by (simp add: io_error_reply_def receive_full_response_def loop_body_def)
  from error_status_invalidates[of connected 5 "\<lambda>v. Inr sample_request" "''nonexistent''" JNull
      sample_request io_error_reply "table_loads reply_table" error_reply 1 _
      "''Unknown command type: nonexistent''" "\<lambda>v. []", OF a _ b c loads_error_reply]
  have "send_command (\<lambda>v. Inr sample_request) (table_loads reply_table) (\<lambda>v. [])
        io_error_reply connected ''nonexistent'' JNull
       = (Some (Inl (Exn PlainException
            ''Communication error with Blender: Unknown command type: nonexistent'')),
          connected\<lparr>sock := None\<rparr>, [SendallCall sample_request, RecvCall])"
    by simp
  with a b c loads_error_reply show ?thesis by simp
qed

end
